theory Spec2Isabelle
  imports Complex_Main "HOL-Library.Sublist" "HOL-Library.Word"
begin

section \<open>Python values, exceptions and the observable world\<close>

text \<open>
  The services of \<^verbatim>\<open>geminiService.py\<close> and \<^verbatim>\<open>pdfUtils.py\<close> are thin
  orchestration code around three libraries: the provider client
  (\<^verbatim>\<open>client.models.generate_content\<close>), \<^verbatim>\<open>json.loads\<close> and
  \<^verbatim>\<open>pypdf.PdfReader\<close>. The libraries are parameters of the model; everything the
  repository's own code does with their results is written out, the printing in the
  handlers included.

  A Python \<^verbatim>\<open>str\<close> is a \<^typ>\<open>string\<close>; one \<^typ>\<open>char\<close> stands for one
  character of the Python string, which is what slicing counts.
\<close>

datatype pyval =
    PNone
  | PBool bool
  | PInt int
  | PFloat real
  | PStr string
  | PList "pyval list"
  | PDict "(string \<times> pyval) list"

text \<open>Truth value testing, as \<^verbatim>\<open>if response.parsed:\<close> performs it.\<close>

fun truthy :: "pyval \<Rightarrow> bool" where
  "truthy PNone = False"
| "truthy (PBool b) = b"
| "truthy (PInt i) = (i \<noteq> 0)"
| "truthy (PFloat x) = (x \<noteq> 0)"
| "truthy (PStr s) = (s \<noteq> [])"
| "truthy (PList xs) = (xs \<noteq> [])"
| "truthy (PDict kvs) = (kvs \<noteq> [])"

text \<open>
  \<^verbatim>\<open>x or d\<close> for an optional string \<^verbatim>\<open>x\<close>: \<^verbatim>\<open>None\<close> and the empty string are
  both false, so both give \<^verbatim>\<open>d\<close>.
\<close>

definition py_or :: "string option \<Rightarrow> string \<Rightarrow> string" where
  "py_or x d = (case x of None \<Rightarrow> d | Some s \<Rightarrow> if s = [] then d else s)"

text \<open>
  An exception carries its class and what \<^verbatim>\<open>str(error)\<close> does: it gives a text,
  or the \<^verbatim>\<open>__str__\<close> of the exception raises in turn. All handlers of the
  repository are \<^verbatim>\<open>except Exception\<close>: they catch the classes derived from
  \<^verbatim>\<open>Exception\<close> and let pass the ones derived from \<^verbatim>\<open>BaseException\<close>
  only (\<^verbatim>\<open>KeyboardInterrupt\<close>, \<^verbatim>\<open>SystemExit\<close>).
\<close>

datatype exc_class =
    ValueError
  | OtherException string
  | BaseExceptionOnly string

datatype pyexc = PyExc (exc_class: exc_class) (exc_str: "pyexc + string")

fun is_Exception :: "pyexc \<Rightarrow> bool" where
  "is_Exception (PyExc ValueError _) = True"
| "is_Exception (PyExc (OtherException _) _) = True"
| "is_Exception (PyExc (BaseExceptionOnly _) _) = False"

subsection \<open>The provider's request and response\<close>

text \<open>The dict schema language of \<^verbatim>\<open>response_schema\<close>, as far as the source uses it.\<close>

datatype schema =
    NUMBER
  | STRING
  | ARRAY schema
  | OBJECT "(string \<times> schema) list" "string list"

record GenerateContentConfig =
  system_instruction :: string
  temperature :: "real option"
  response_mime_type :: "string option"
  cfg_response_schema :: "schema option"

record request =
  model :: string
  contents :: string
  config :: GenerateContentConfig

record response =
  response_text :: "string option"
  response_parsed :: pyval

type_synonym provider = "request \<Rightarrow> pyexc + response"

text \<open>
  The state outside the functions: the lines written to \<^verbatim>\<open>sys.stdout\<close> so far, the
  stream itself, and the requests that reached the provider, in order. The stream is
  given by the exception it raises, if any, when a text is written after the lines
  already there: an encoding that cannot represent the text, a closed file, a full device.
\<close>

record world =
  stdout :: "string list"
  stdout_write :: "string list \<Rightarrow> string \<Rightarrow> pyexc option"
  requests :: "request list"

text \<open>\<^verbatim>\<open>print(line)\<close>: the stream raises, or the line is written.\<close>

definition py_print :: "string \<Rightarrow> world \<Rightarrow> pyexc + world" where
  "py_print line w =
     (case stdout_write w (stdout w) line of
        Some raised \<Rightarrow> Inl raised
      | None \<Rightarrow> Inr (w\<lparr>stdout := stdout w @ [line]\<rparr>))"

text \<open>
  \<^verbatim>\<open>print(f"<label>{error}")\<close>, the first statement of every handler. The f-string
  formats the exception with \<^verbatim>\<open>str(error)\<close>, which may raise; then the line is
  printed, which may raise. Nothing guards the statement, so what it raises leaves the
  function.
\<close>

definition print_error :: "string \<Rightarrow> pyexc \<Rightarrow> world \<Rightarrow> pyexc + world" where
  "print_error label error w =
     (case exc_str error of
        Inl raised \<Rightarrow> Inl raised
      | Inr message \<Rightarrow> py_print (label @ message) w)"

definition send :: "request \<Rightarrow> world \<Rightarrow> world" where
  "send req w = w\<lparr>requests := requests w @ [req]\<rparr>"

section \<open>geminiService: constants\<close>

definition SUMMARY_SYSTEM_INSTRUCTION :: string where
  \<open>SUMMARY_SYSTEM_INSTRUCTION =
   ''\<newline>'' @
   ''You are a professional assistant. \<newline>'' @
   ''You are receiving text that has been locally sanitized (PII redacted).\<newline>'' @
   ''Your job is to provide a concise, professional summary of the content.\<newline>'' @
   ''\<newline>'' @
   ''Input Context:\<newline>'' @
   ''- Text contains [REDACTED_TYPE] placeholders.\<newline>'' @
   ''- Focus on the non-sensitive business logic, events, or main topics.\<newline>'' @
   ''- The document might be quite long; provide a structured overview.\<newline>''\<close>

definition VALIDATION_SYSTEM_INSTRUCTION :: string where
  \<open>VALIDATION_SYSTEM_INSTRUCTION =
   ''\<newline>'' @
   ''You are a Senior Data Privacy Auditor. \<newline>'' @
   ''Your task is to compare a REDACTED version of a document with its ORIGINAL version to identify any missed PII (Personally Identifiable Information).\<newline>'' @
   ''\<newline>'' @
   ''LEAK CRITERIA:\<newline>'' @
   ''- Any real names of people, specific addresses, phone numbers, or clear unique identifiers (like SSNs or specific SAP Vendor IDs) that were NOT replaced by a [REDACTED_...] tag.\<newline>'' @
   ''- Partial leaks (e.g., "Mr. [REDACTED_NAME] lives at 123 Main St" where the address was missed).\<newline>'' @
   ''\<newline>'' @
   ''Return a JSON object:\<newline>'' @
   ''{\<newline>'' @
   ''  "score": number (0-100, where 100 means zero leaks),\<newline>'' @
   ''  "leaks": [\<newline>'' @
   ''    { "item": "string", "type": "string", "context": "string", "severity": "Critical" | "Warning" }\<newline>'' @
   ''  ],\<newline>'' @
   ''  "summary": "string describing the audit result",\<newline>'' @
   ''  "accuracy_metrics": { "precision": number, "recall": number }\<newline>'' @
   ''}\<newline>''\<close>

section \<open>geminiService: generate_summary\<close>

definition summary_request :: "string \<Rightarrow> request" where
  "summary_request sanitized_text =
     \<lparr> model = ''gemini-2.0-flash'',
       contents = sanitized_text,
       config = \<lparr> system_instruction = SUMMARY_SYSTEM_INSTRUCTION,
                  temperature = Some (3 / 10),
                  response_mime_type = None,
                  cfg_response_schema = None \<rparr> \<rparr>"

text \<open>
  The body of the \<^verbatim>\<open>try\<close>, then the handler: an \<^verbatim>\<open>Exception\<close> is printed and
  raised again, unless the print raises first; anything else passes the handler
  untouched.
\<close>

definition generate_summary ::
  "provider \<Rightarrow> string \<Rightarrow> world \<Rightarrow> (pyexc + string) \<times> world" where
  "generate_summary generate_content sanitized_text w =
     (let w1 = send (summary_request sanitized_text) w in
      case generate_content (summary_request sanitized_text) of
        Inr response \<Rightarrow>
          (Inr (py_or (response_text response) ''No summary generated.''), w1)
      | Inl error \<Rightarrow>
          if is_Exception error
          then (case print_error ''Error during Gemini summarization: '' error w1 of
                  Inl raised \<Rightarrow> (Inl raised, w1)
                | Inr w2 \<Rightarrow> (Inl error, w2))
          else (Inl error, w1))"

section \<open>geminiService: perform_privacy_validation\<close>

text \<open>
  The local \<^verbatim>\<open>response_schema\<close>: four required top-level properties, the elements of
  \<^verbatim>\<open>leaks\<close> with four required properties and \<^verbatim>\<open>accuracy_metrics\<close> with two.
\<close>

definition response_schema :: schema where
  "response_schema =
     OBJECT
       [(''score'', NUMBER),
        (''summary'', STRING),
        (''leaks'',
           ARRAY (OBJECT
             [(''item'', STRING), (''type'', STRING), (''context'', STRING),
              (''severity'', STRING)]
             [''item'', ''type'', ''context'', ''severity''])),
        (''accuracy_metrics'',
           OBJECT [(''precision'', NUMBER), (''recall'', NUMBER)]
                  [''precision'', ''recall''])]
       [''score'', ''summary'', ''leaks'', ''accuracy_metrics'']"

text \<open>
  The f-string of the prompt. Both samples are slices \<^verbatim>\<open>[:20000]\<close>; a slice of a
  shorter string is the string itself, which is what \<^const>\<open>take\<close> does.
\<close>

definition validation_prompt :: "string \<Rightarrow> string \<Rightarrow> string" where
  "validation_prompt original_text sanitized_text =
     (let original_sample = take 20000 original_text;
          sanitized_sample = take 20000 sanitized_text
      in ''\<newline>'' @
         ''        ORIGINAL TEXT SAMPLE:\<newline>'' @
         ''        '' @ original_sample @ ''\<newline>'' @
         ''\<newline>'' @
         ''        SANITIZED TEXT SAMPLE:\<newline>'' @
         ''        '' @ sanitized_sample @ ''\<newline>'' @
         ''        \<newline>'' @
         ''        Audit the SANITIZED sample against the ORIGINAL sample.\<newline>'' @
         ''        '')"

definition validation_request :: "string \<Rightarrow> string \<Rightarrow> request" where
  "validation_request original_text sanitized_text =
     \<lparr> model = ''gemini-2.0-pro-exp-02-05'',
       contents = validation_prompt original_text sanitized_text,
       config = \<lparr> system_instruction = VALIDATION_SYSTEM_INSTRUCTION,
                  temperature = None,
                  response_mime_type = Some ''application/json'',
                  cfg_response_schema = Some response_schema \<rparr> \<rparr>"

text \<open>
  The statements inside the \<^verbatim>\<open>try\<close>. \<^verbatim>\<open>json.loads\<close> is the parameter
  \<open>json_loads\<close>; it raises on text that is not JSON.
\<close>

definition validation_body ::
  "provider \<Rightarrow> (string \<Rightarrow> pyexc + pyval) \<Rightarrow> string \<Rightarrow> string \<Rightarrow> pyexc + pyval" where
  "validation_body generate_content json_loads original_text sanitized_text =
     (case generate_content (validation_request original_text sanitized_text) of
        Inl error \<Rightarrow> Inl error
      | Inr response \<Rightarrow>
          if truthy (response_parsed response)
          then Inr (response_parsed response)
          else json_loads (py_or (response_text response) ''{}''))"

text \<open>
  The whole function: the handler prints the error and returns the fallback dict,
  unless the print raises first. An exception that is no \<^verbatim>\<open>Exception\<close> is not
  caught.
\<close>

definition perform_privacy_validation ::
  "provider \<Rightarrow> (string \<Rightarrow> pyexc + pyval) \<Rightarrow> string \<Rightarrow> string \<Rightarrow> world
     \<Rightarrow> (pyexc + pyval) \<times> world" where
  "perform_privacy_validation generate_content json_loads original_text sanitized_text w =
     (let w1 = send (validation_request original_text sanitized_text) w in
      case validation_body generate_content json_loads original_text sanitized_text of
        Inr result \<Rightarrow> (Inr result, w1)
      | Inl error \<Rightarrow>
          if is_Exception error
          then (case print_error ''Privacy validation failed: '' error w1 of
                  Inl raised \<Rightarrow> (Inl raised, w1)
                | Inr w2 \<Rightarrow>
                    (Inr (PDict
                       [(''score'', PInt 100),
                        (''leaks'', PList []),
                        (''summary'',
                           PStr ''Audit service encountered an error. Manual review suggested.''),
                        (''accuracy_metrics'',
                           PDict [(''precision'', PFloat 1), (''recall'', PFloat 1)])]),
                     w2))
          else (Inl error, w1))"

subsection \<open>What the provider promises for a schema\<close>

text \<open>
  The provider is asked for JSON that conforms to \<^const>\<open>response_schema\<close>. Conformance
  is the usual reading of such a schema: a number, a string, a list whose elements
  conform, a dict that has every required key and whose declared properties conform.
  Nothing in the repository checks it; it is what "schema-parsed" says of an object.
\<close>

fun conforms :: "schema \<Rightarrow> pyval \<Rightarrow> bool" where
  "conforms NUMBER v = (case v of PInt _ \<Rightarrow> True | PFloat _ \<Rightarrow> True | _ \<Rightarrow> False)"
| "conforms STRING v = (case v of PStr _ \<Rightarrow> True | _ \<Rightarrow> False)"
| "conforms (ARRAY s) v =
     (case v of PList vs \<Rightarrow> list_all (conforms s) vs | _ \<Rightarrow> False)"
| "conforms (OBJECT properties required) v =
     (case v of
        PDict kvs \<Rightarrow>
          list_all (\<lambda>k. map_of kvs k \<noteq> None) required \<and>
          list_all (\<lambda>(k, s). case map_of kvs k of None \<Rightarrow> True | Some x \<Rightarrow> conforms s x)
            properties
      | _ \<Rightarrow> False)"

text \<open>A field is populated when the dict has the key, with a value other than \<^verbatim>\<open>None\<close>.\<close>

definition populated :: "string \<Rightarrow> pyval \<Rightarrow> bool" where
  "populated k v =
     (case v of
        PDict kvs \<Rightarrow> (case map_of kvs k of None \<Rightarrow> False | Some x \<Rightarrow> x \<noteq> PNone)
      | _ \<Rightarrow> False)"

definition leaks_of :: "pyval \<Rightarrow> pyval list" where
  "leaks_of v =
     (case v of
        PDict kvs \<Rightarrow> (case map_of kvs ''leaks'' of Some (PList ls) \<Rightarrow> ls | _ \<Rightarrow> [])
      | _ \<Rightarrow> [])"

section \<open>pdfUtils: extract_text_from_pdf\<close>

text \<open>
  \<^verbatim>\<open>PdfReader\<close> either raises on the bytes or gives the pages. A page is what
  \<^verbatim>\<open>reader.pages[i].extract_text()\<close> does on it: it raises, or returns a string or
  \<^verbatim>\<open>None\<close>.
\<close>

type_synonym bytes = "8 word list"
type_synonym page = "pyexc + string option"
type_synonym pdf_reader = "bytes \<Rightarrow> pyexc + page list"

text \<open>\<^verbatim>\<open>str\<close> of a natural number, as the f-string formats \<^verbatim>\<open>i + 1\<close>.\<close>

fun str_nat :: "nat \<Rightarrow> string" where
  "str_nat n =
     (if n < 10 then [''0123456789'' ! n]
      else str_nat (n div 10) @ [''0123456789'' ! (n mod 10)])"

definition page_segment :: "nat \<Rightarrow> string \<Rightarrow> string" where
  "page_segment i page_text =
     ''--- Page '' @ str_nat (i + 1) @ '' ---\<newline>'' @ page_text @ ''\<newline>\<newline>''"

text \<open>
  The loop \<^verbatim>\<open>for i in range(num_pages)\<close>, from index \<open>i\<close> on. Indexing
  \<^verbatim>\<open>reader.pages[i]\<close> beyond the end raises \<^verbatim>\<open>IndexError\<close>.
\<close>

function extract_loop ::
  "page list \<Rightarrow> nat \<Rightarrow> nat \<Rightarrow> string list \<Rightarrow> pyexc + string list" where
  "extract_loop pages num_pages i full_text =
     (if i < num_pages
      then (if i < length pages
            then (case pages ! i of
                    Inl error \<Rightarrow> Inl error
                  | Inr page_text \<Rightarrow>
                      extract_loop pages num_pages (i + 1)
                        (full_text @ [page_segment i (py_or page_text [])]))
            else Inl (PyExc (OtherException ''IndexError'')
                       (Inr ''sequence index out of range'')))
      else Inr full_text)"
  by pat_completeness auto
termination
  by (relation "measure (\<lambda>(pages, num_pages, i, full_text). num_pages - i)") auto

declare extract_loop.simps [simp del]

definition extract_body :: "pdf_reader \<Rightarrow> bytes \<Rightarrow> pyexc + string" where
  "extract_body PdfReader file_bytes =
     (case PdfReader file_bytes of
        Inl error \<Rightarrow> Inl error
      | Inr pages \<Rightarrow>
          (case extract_loop pages (length pages) 0 [] of
             Inl error \<Rightarrow> Inl error
           | Inr full_text \<Rightarrow> Inr (concat full_text)))"

definition extract_text_from_pdf ::
  "pdf_reader \<Rightarrow> bytes \<Rightarrow> world \<Rightarrow> (pyexc + string) \<times> world" where
  "extract_text_from_pdf PdfReader file_bytes w =
     (case extract_body PdfReader file_bytes of
        Inr s \<Rightarrow> (Inr s, w)
      | Inl e \<Rightarrow>
          if is_Exception e
          then (case print_error ''Error extracting text from PDF: '' e w of
                  Inl raised \<Rightarrow> (Inl raised, w)
                | Inr w2 \<Rightarrow>
                    (Inl (PyExc ValueError
                       (Inr ''Failed to extract text from PDF file. Please try a text or JSON file if this persists.'')),
                     w2))
          else (Inl e, w))"

section \<open>Sample data\<close>

text \<open>
  The audit of the scenario "John Smith lives at 123 Main St": the name is redacted, the
  address is not, and the provider reports the one leak.
\<close>

definition sample_audit :: pyval where
  "sample_audit =
     PDict
       [(''score'', PInt 60),
        (''leaks'',
           PList [PDict [(''item'', PStr ''123 Main St''),
                         (''type'', PStr ''address''),
                         (''context'', PStr ''lives at 123 Main St''),
                         (''severity'', PStr ''Critical'')]]),
        (''summary'', PStr ''One address was not redacted.''),
        (''accuracy_metrics'',
           PDict [(''precision'', PFloat (9 / 10)), (''recall'', PFloat (8 / 10))])]"

text \<open>
  Three streams: one that takes every text, one whose encoding is ASCII, and one on a
  device with room for a single line.
\<close>

definition utf8_stdout :: "string list \<Rightarrow> string \<Rightarrow> pyexc option" where
  "utf8_stdout written line = None"

definition ascii_stdout :: "string list \<Rightarrow> string \<Rightarrow> pyexc option" where
  "ascii_stdout written line =
     (if list_all (\<lambda>c. (of_char c :: nat) < 128) line then None
      else Some (PyExc (OtherException ''UnicodeEncodeError'')
                   (Inr ''ascii codec cannot encode character: ordinal not in range(128)'')))"


definition empty_world :: world where
  "empty_world = \<lparr>stdout = [], stdout_write = utf8_stdout, requests = []\<rparr>"

definition ascii_world :: world where
  "ascii_world = \<lparr>stdout = [], stdout_write = ascii_stdout, requests = []\<rparr>"


text \<open>
  Providers and parsers that fail: a connection error whose message has the character
  U+00E9, a plain connection error, an interrupt, a reader error with U+00E9, and a JSON
  parser that rejects every text.
\<close>

definition cafe_error :: pyexc where
  "cafe_error =
     PyExc (OtherException ''ConnectError'') (Inr (''cannot reach caf'' @ [CHR 0xE9]))"

definition cafe_provider :: provider where
  "cafe_provider req = Inl cafe_error"

definition connect_error :: pyexc where
  "connect_error = PyExc (OtherException ''ConnectError'') (Inr ''network unreachable'')"

definition unreachable_provider :: provider where
  "unreachable_provider req = Inl connect_error"

definition keyboard_interrupt :: pyexc where
  "keyboard_interrupt = PyExc (BaseExceptionOnly ''KeyboardInterrupt'') (Inr [])"

definition interrupted_provider :: provider where
  "interrupted_provider req = Inl keyboard_interrupt"

definition no_json :: "string \<Rightarrow> pyexc + pyval" where
  "no_json s = Inl (PyExc (OtherException ''JSONDecodeError'') (Inr ''Expecting value''))"

definition cafe_reader :: pdf_reader where
  "cafe_reader file_bytes =
     Inl (PyExc (OtherException ''PdfReadError'') (Inr (''bad xref in r'' @ [CHR 0xE9] @ ''sum'' @ [CHR 0xE9])))"

section \<open>Printing in a handler\<close>

lemma stdout_send [simp]: "stdout (send req w) = stdout w"
  by (simp add: send_def)

lemma stdout_write_send [simp]: "stdout_write (send req w) = stdout_write w"
  by (simp add: send_def)

lemma requests_send [simp]: "requests (send req w) = requests w @ [req]"
  by (simp add: send_def)

text \<open>The print goes through when the exception has a text and the stream takes the line.\<close>

lemma print_error_printed:
  assumes "exc_str error = Inr message"
    and "stdout_write w (stdout w) (label @ message) = None"
  shows "print_error label error w = Inr (w\<lparr>stdout := stdout w @ [label @ message]\<rparr>)"
  using assms by (simp add: print_error_def py_print_def)

text \<open>Whatever the print does, it leaves the stream and the request log as they were.\<close>

lemma print_error_frame:
  assumes "print_error label error w = Inr w2"
  shows "stdout_write w2 = stdout_write w \<and> requests w2 = requests w \<and>
         (\<exists>line. stdout w2 = stdout w @ [line])"
  using assms
  by (auto simp: print_error_def py_print_def split: sum.splits option.splits)

section \<open>Properties of generate_summary\<close>

lemma py_or_nonempty: "d \<noteq> [] \<Longrightarrow> py_or x d \<noteq> []"
  by (simp add: py_or_def split: option.splits)

lemma py_or_cases: "py_or x d = d \<or> x = Some (py_or x d)"
  by (simp add: py_or_def split: option.splits)

text \<open>
  C5. When the provider call succeeds, \<^verbatim>\<open>generate_summary\<close> returns the literal
  "No summary generated." if the response text is absent (\<^verbatim>\<open>None\<close>) or empty, and
  the provider's text unchanged otherwise.
\<close>

theorem generate_summary_text_or_placeholder:
  assumes "generate_content (summary_request sanitized_text) = Inr response"
  shows "fst (generate_summary generate_content sanitized_text w) =
           Inr (if response_text response = None \<or> response_text response = Some []
                then ''No summary generated.''
                else the (response_text response))"
  using assms by (auto simp: generate_summary_def py_or_def Let_def split: option.splits)

theorem generate_summary_text_or_placeholder_witness:
  "fst (generate_summary (\<lambda>_. Inr \<lparr>response_text = None, response_parsed = PNone\<rparr>)
          ''abc'' empty_world) = Inr ''No summary generated.'' \<and>
   fst (generate_summary (\<lambda>_. Inr \<lparr>response_text = Some [], response_parsed = PNone\<rparr>)
          ''abc'' empty_world) = Inr ''No summary generated.'' \<and>
   fst (generate_summary
          (\<lambda>_. Inr \<lparr>response_text = Some ''A short summary.'', response_parsed = PNone\<rparr>)
          ''abc'' empty_world) = Inr ''A short summary.''"
  using generate_summary_text_or_placeholder
          [of "\<lambda>_. Inr \<lparr>response_text = None, response_parsed = PNone\<rparr>" "''abc''"
              "\<lparr>response_text = None, response_parsed = PNone\<rparr>" empty_world]
        generate_summary_text_or_placeholder
          [of "\<lambda>_. Inr \<lparr>response_text = Some [], response_parsed = PNone\<rparr>" "''abc''"
              "\<lparr>response_text = Some [], response_parsed = PNone\<rparr>" empty_world]
        generate_summary_text_or_placeholder
          [of "\<lambda>_. Inr \<lparr>response_text = Some ''A short summary.'', response_parsed = PNone\<rparr>"
              "''abc''"
              "\<lparr>response_text = Some ''A short summary.'', response_parsed = PNone\<rparr>"
              empty_world]
  by simp

text \<open>
  C6, as the code has it. When the provider call raises, \<^verbatim>\<open>generate_summary\<close>
  raises as well and returns no value in any case. If what the provider raised is an
  \<^verbatim>\<open>Exception\<close> and its log line can be printed, the line is printed and that same
  exception is raised to the caller. An exception that is no \<^verbatim>\<open>Exception\<close> is
  raised to the caller without a log line.
\<close>

theorem generate_summary_reraises:
  assumes "generate_content (summary_request sanitized_text) = Inl error"
  shows "(\<exists>raised. fst (generate_summary generate_content sanitized_text w) = Inl raised) \<and>
         (is_Exception error \<and> exc_str error = Inr message \<and>
          stdout_write w (stdout w) (''Error during Gemini summarization: '' @ message) = None
          \<longrightarrow>
            fst (generate_summary generate_content sanitized_text w) = Inl error \<and>
            stdout (snd (generate_summary generate_content sanitized_text w)) =
              stdout w @ [''Error during Gemini summarization: '' @ message]) \<and>
         (\<not> is_Exception error \<longrightarrow>
            fst (generate_summary generate_content sanitized_text w) = Inl error \<and>
            stdout (snd (generate_summary generate_content sanitized_text w)) = stdout w)"
proof (intro conjI impI)
  show "\<exists>raised. fst (generate_summary generate_content sanitized_text w) = Inl raised"
    using assms by (simp add: generate_summary_def Let_def split: sum.splits)
next
  assume logged: "is_Exception error \<and> exc_str error = Inr message \<and>
    stdout_write w (stdout w) (''Error during Gemini summarization: '' @ message) = None"
  then have "print_error ''Error during Gemini summarization: '' error
               (send (summary_request sanitized_text) w) =
             Inr ((send (summary_request sanitized_text) w)
                    \<lparr>stdout := stdout (send (summary_request sanitized_text) w) @
                                 [''Error during Gemini summarization: '' @ message]\<rparr>)"
    by (intro print_error_printed) simp_all
  with assms logged
  show "fst (generate_summary generate_content sanitized_text w) = Inl error"
    and "stdout (snd (generate_summary generate_content sanitized_text w)) =
           stdout w @ [''Error during Gemini summarization: '' @ message]"
    by (simp_all add: generate_summary_def Let_def)
next
  assume "\<not> is_Exception error"
  with assms
  show "fst (generate_summary generate_content sanitized_text w) = Inl error"
    and "stdout (snd (generate_summary generate_content sanitized_text w)) = stdout w"
    by (simp_all add: generate_summary_def Let_def)
qed

theorem generate_summary_reraises_witness:
  "fst (generate_summary unreachable_provider ''abc'' empty_world) = Inl connect_error \<and>
   stdout (snd (generate_summary unreachable_provider ''abc'' empty_world)) =
     [''Error during Gemini summarization: network unreachable''] \<and>
   fst (generate_summary interrupted_provider ''abc'' empty_world) = Inl keyboard_interrupt \<and>
   stdout (snd (generate_summary interrupted_provider ''abc'' empty_world)) = []"
proof -
  have a: "unreachable_provider (summary_request ''abc'') = Inl connect_error"
    by (simp add: unreachable_provider_def)
  have b: "is_Exception connect_error \<and> exc_str connect_error = Inr ''network unreachable'' \<and>
           stdout_write empty_world (stdout empty_world)
             (''Error during Gemini summarization: '' @ ''network unreachable'') = None"
    by (simp add: connect_error_def empty_world_def utf8_stdout_def)
  have c: "interrupted_provider (summary_request ''abc'') = Inl keyboard_interrupt"
    by (simp add: interrupted_provider_def)
  have d: "\<not> is_Exception keyboard_interrupt"
    by (simp add: keyboard_interrupt_def)
  show ?thesis
    using generate_summary_reraises
            [where generate_content = unreachable_provider and sanitized_text = "''abc''"
               and w = empty_world and message = "''network unreachable''", OF a] b
          generate_summary_reraises
            [where generate_content = interrupted_provider and sanitized_text = "''abc''"
               and w = empty_world and message = "[]", OF c] d
    by (simp add: empty_world_def)
qed

text \<open>
  C6 as stated fails twice. On a stream whose encoding is ASCII, a provider error with
  the character U+00E9 in its message makes the print in the handler raise: the caller
  gets \<^verbatim>\<open>UnicodeEncodeError\<close>, not the provider's exception, and no line is
  written. And an interrupt raised by the provider reaches the caller with nothing
  logged.
\<close>

theorem generate_summary_propagates_counterexample:
  "fst (generate_summary cafe_provider ''abc'' ascii_world) =
     Inl (PyExc (OtherException ''UnicodeEncodeError'')
            (Inr ''ascii codec cannot encode character: ordinal not in range(128)'')) \<and>
   fst (generate_summary cafe_provider ''abc'' ascii_world) \<noteq> Inl cafe_error \<and>
   stdout (snd (generate_summary cafe_provider ''abc'' ascii_world)) = [] \<and>
   fst (generate_summary interrupted_provider ''abc'' empty_world) = Inl keyboard_interrupt \<and>
   stdout (snd (generate_summary interrupted_provider ''abc'' empty_world)) = []"
  by (simp add: generate_summary_def Let_def cafe_provider_def cafe_error_def
        interrupted_provider_def keyboard_interrupt_def print_error_def py_print_def
        ascii_world_def ascii_stdout_def empty_world_def)

text \<open>
  C10. Whenever \<^verbatim>\<open>generate_summary\<close> returns a value, the value is a non-empty
  string: the placeholder, or the text of the provider's response, which is then not
  empty. The empty string is never returned.
\<close>

theorem generate_summary_nonempty:
  assumes "fst (generate_summary generate_content sanitized_text w) = Inr s"
  shows "s \<noteq> [] \<and>
         (s = ''No summary generated.'' \<or>
          (\<exists>response. generate_content (summary_request sanitized_text) = Inr response \<and>
                      response_text response = Some s))"
proof (cases "generate_content (summary_request sanitized_text)")
  case (Inl error)
  with assms show ?thesis
    by (simp add: generate_summary_def Let_def split: if_splits sum.splits)
next
  case (Inr response)
  with assms have s: "s = py_or (response_text response) ''No summary generated.''"
    by (simp add: generate_summary_def Let_def)
  have "s \<noteq> []"
    unfolding s by (rule py_or_nonempty) simp
  moreover have "s = ''No summary generated.'' \<or> response_text response = Some s"
    unfolding s by (rule py_or_cases)
  ultimately show ?thesis
    using Inr by blast
qed

theorem generate_summary_nonempty_witness:
  "fst (generate_summary (\<lambda>_. Inr \<lparr>response_text = Some [], response_parsed = PNone\<rparr>)
          ''abc'' empty_world) = Inr ''No summary generated.'' \<and>
   ''No summary generated.'' \<noteq> []"
  using generate_summary_nonempty
          [of "\<lambda>_. Inr \<lparr>response_text = Some [], response_parsed = PNone\<rparr>" "''abc''"
              empty_world "''No summary generated.''"]
  by (simp add: generate_summary_def py_or_def)

section \<open>Properties of perform_privacy_validation\<close>

text \<open>
  The body of the \<^verbatim>\<open>try\<close> raises in exactly two ways: the provider call raises,
  or no truthy \<^verbatim>\<open>parsed\<close> object is there and \<^verbatim>\<open>json.loads\<close> raises on the text.
\<close>

lemma validation_body_raises:
  "validation_body generate_content json_loads original_text sanitized_text = Inl error \<longleftrightarrow>
     generate_content (validation_request original_text sanitized_text) = Inl error \<or>
     (\<exists>response.
        generate_content (validation_request original_text sanitized_text) = Inr response \<and>
        \<not> truthy (response_parsed response) \<and>
        json_loads (py_or (response_text response) ''{}'') = Inl error)"
  by (auto simp: validation_body_def split: sum.splits)

text \<open>
  C1, as the code has it. If an exception occurs during the audit, be it raised by the
  provider call (network failure, schema violation reported by the client) or by the
  JSON parser, and it is an \<^verbatim>\<open>Exception\<close> whose log line can be printed, then
  \<^verbatim>\<open>perform_privacy_validation\<close> prints the line, does not raise, and returns exactly
  the fallback dict with score 100, no leaks, the summary "Audit service encountered an
  error. Manual review suggested." and precision and recall 1.0.
\<close>

theorem perform_privacy_validation_fallback_if_logged:
  assumes "generate_content (validation_request original_text sanitized_text) = Inl error \<or>
           (\<exists>response.
              generate_content (validation_request original_text sanitized_text) = Inr response \<and>
              \<not> truthy (response_parsed response) \<and>
              json_loads (py_or (response_text response) ''{}'') = Inl error)"
    and "is_Exception error"
    and "exc_str error = Inr message"
    and "stdout_write w (stdout w) (''Privacy validation failed: '' @ message) = None"
  shows "fst (perform_privacy_validation generate_content json_loads
                original_text sanitized_text w) =
           Inr (PDict
             [(''score'', PInt 100),
              (''leaks'', PList []),
              (''summary'', PStr ''Audit service encountered an error. Manual review suggested.''),
              (''accuracy_metrics'', PDict [(''precision'', PFloat 1), (''recall'', PFloat 1)])]) \<and>
         stdout (snd (perform_privacy_validation generate_content json_loads
                        original_text sanitized_text w)) =
           stdout w @ [''Privacy validation failed: '' @ message]"
proof -
  from assms(1)
  have body: "validation_body generate_content json_loads original_text sanitized_text =
                Inl error"
    by (simp only: validation_body_raises)
  from assms(3,4)
  have "print_error ''Privacy validation failed: '' error
          (send (validation_request original_text sanitized_text) w) =
        Inr ((send (validation_request original_text sanitized_text) w)
               \<lparr>stdout := stdout (send (validation_request original_text sanitized_text) w) @
                            [''Privacy validation failed: '' @ message]\<rparr>)"
    by (intro print_error_printed) simp_all
  with body assms(2) show ?thesis
    by (simp add: perform_privacy_validation_def Let_def)
qed

theorem perform_privacy_validation_fallback_if_logged_witness:
  "fst (perform_privacy_validation unreachable_provider no_json
          ''John Smith'' ''[REDACTED_NAME]'' empty_world) =
     Inr (PDict
       [(''score'', PInt 100),
        (''leaks'', PList []),
        (''summary'', PStr ''Audit service encountered an error. Manual review suggested.''),
        (''accuracy_metrics'', PDict [(''precision'', PFloat 1), (''recall'', PFloat 1)])]) \<and>
   stdout (snd (perform_privacy_validation unreachable_provider no_json
                  ''John Smith'' ''[REDACTED_NAME]'' empty_world)) =
     [''Privacy validation failed: network unreachable''] \<and>
   fst (perform_privacy_validation
          (\<lambda>_. Inr \<lparr>response_text = Some ''not json'', response_parsed = PNone\<rparr>) no_json
          ''John Smith'' ''[REDACTED_NAME]'' empty_world) =
     Inr (PDict
       [(''score'', PInt 100),
        (''leaks'', PList []),
        (''summary'', PStr ''Audit service encountered an error. Manual review suggested.''),
        (''accuracy_metrics'', PDict [(''precision'', PFloat 1), (''recall'', PFloat 1)])]) \<and>
   stdout (snd (perform_privacy_validation
                  (\<lambda>_. Inr \<lparr>response_text = Some ''not json'', response_parsed = PNone\<rparr>)
                  no_json ''John Smith'' ''[REDACTED_NAME]'' empty_world)) =
     [''Privacy validation failed: Expecting value'']"
proof -
  have a1: "unreachable_provider (validation_request ''John Smith'' ''[REDACTED_NAME]'') =
              Inl connect_error \<or>
            (\<exists>response.
               unreachable_provider (validation_request ''John Smith'' ''[REDACTED_NAME]'') =
                 Inr response \<and>
               \<not> truthy (response_parsed response) \<and>
               no_json (py_or (response_text response) ''{}'') = Inl connect_error)"
    by (simp add: unreachable_provider_def)
  have a2: "is_Exception connect_error" and a3: "exc_str connect_error = Inr ''network unreachable''"
    by (simp_all add: connect_error_def)
  have a4: "stdout_write empty_world (stdout empty_world)
              (''Privacy validation failed: '' @ ''network unreachable'') = None"
    by (simp add: empty_world_def utf8_stdout_def)
  have b1: "(\<lambda>_. Inr \<lparr>response_text = Some ''not json'', response_parsed = PNone\<rparr>)
              (validation_request ''John Smith'' ''[REDACTED_NAME]'') =
              Inl (PyExc (OtherException ''JSONDecodeError'') (Inr ''Expecting value'')) \<or>
            (\<exists>response.
               (\<lambda>_. Inr \<lparr>response_text = Some ''not json'', response_parsed = PNone\<rparr>)
                 (validation_request ''John Smith'' ''[REDACTED_NAME]'') = Inr response \<and>
               \<not> truthy (response_parsed response) \<and>
               no_json (py_or (response_text response) ''{}'') =
                 Inl (PyExc (OtherException ''JSONDecodeError'') (Inr ''Expecting value'')))"
    by (simp add: no_json_def)
  have b2: "is_Exception (PyExc (OtherException ''JSONDecodeError'') (Inr ''Expecting value''))"
    and b3: "exc_str (PyExc (OtherException ''JSONDecodeError'') (Inr ''Expecting value'')) =
               Inr ''Expecting value''"
    by simp_all
  have b4: "stdout_write empty_world (stdout empty_world)
              (''Privacy validation failed: '' @ ''Expecting value'') = None"
    by (simp add: empty_world_def utf8_stdout_def)
  show ?thesis
    using perform_privacy_validation_fallback_if_logged
            [where generate_content = unreachable_provider and json_loads = no_json
               and original_text = "''John Smith''" and sanitized_text = "''[REDACTED_NAME]''"
               and error = connect_error and message = "''network unreachable''"
               and w = empty_world, OF a1 a2 a3 a4]
          perform_privacy_validation_fallback_if_logged
            [where generate_content =
                     "\<lambda>_. Inr \<lparr>response_text = Some ''not json'', response_parsed = PNone\<rparr>"
               and json_loads = no_json
               and original_text = "''John Smith''" and sanitized_text = "''[REDACTED_NAME]''"
               and error = "PyExc (OtherException ''JSONDecodeError'') (Inr ''Expecting value'')"
               and message = "''Expecting value''" and w = empty_world, OF b1 b2 b3 b4]
    by (simp add: empty_world_def)
qed

text \<open>
  C1 as stated fails. On a stream whose encoding is ASCII, a provider error with the
  character U+00E9 in its message makes the print in the handler raise, and
  \<^verbatim>\<open>perform_privacy_validation\<close> raises \<^verbatim>\<open>UnicodeEncodeError\<close> to its caller
  instead of returning the fallback. An interrupt raised by the provider is not caught
  at all.
\<close>

theorem perform_privacy_validation_fallback_counterexample:
  "fst (perform_privacy_validation cafe_provider no_json
          ''John Smith'' ''[REDACTED_NAME]'' ascii_world) =
     Inl (PyExc (OtherException ''UnicodeEncodeError'')
            (Inr ''ascii codec cannot encode character: ordinal not in range(128)'')) \<and>
   fst (perform_privacy_validation interrupted_provider no_json
          ''John Smith'' ''[REDACTED_NAME]'' empty_world) = Inl keyboard_interrupt"
  by (simp add: perform_privacy_validation_def validation_body_def Let_def
        cafe_provider_def cafe_error_def interrupted_provider_def keyboard_interrupt_def
        print_error_def py_print_def ascii_world_def ascii_stdout_def empty_world_def)

subsection \<open>A schema-parsed object is returned as it is\<close>

lemma conforms_response_schema_dict:
  assumes "conforms response_schema v"
  shows "\<exists>kvs. v = PDict kvs \<and> kvs \<noteq> [] \<and>
           map_of kvs ''score'' \<noteq> None \<and> map_of kvs ''summary'' \<noteq> None \<and>
           map_of kvs ''leaks'' \<noteq> None \<and> map_of kvs ''accuracy_metrics'' \<noteq> None"
  using assms by (cases v) (auto simp: response_schema_def)

lemma conforms_response_schema_truthy:
  "conforms response_schema v \<Longrightarrow> truthy v"
  by (drule conforms_response_schema_dict) auto

lemma conforms_leak_populated:
  assumes "conforms (OBJECT
             [(''item'', STRING), (''type'', STRING), (''context'', STRING),
              (''severity'', STRING)]
             [''item'', ''type'', ''context'', ''severity'']) leak"
  shows "populated ''item'' leak \<and> populated ''type'' leak \<and>
         populated ''context'' leak \<and> populated ''severity'' leak"
  using assms by (cases leak) (auto simp: populated_def)

lemma conforms_response_schema_leaks:
  assumes "conforms response_schema v" and "leak \<in> set (leaks_of v)"
  shows "populated ''item'' leak \<and> populated ''type'' leak \<and>
         populated ''context'' leak \<and> populated ''severity'' leak"
proof -
  from assms(1) obtain kvs where v: "v = PDict kvs"
    by (auto dest: conforms_response_schema_dict)
  from assms(2) v have "\<exists>ls. map_of kvs ''leaks'' = Some (PList ls) \<and> leak \<in> set ls"
    by (cases "map_of kvs ''leaks''") (auto simp: leaks_of_def split: pyval.splits)
  then obtain ls where ls: "map_of kvs ''leaks'' = Some (PList ls)" "leak \<in> set ls"
    by blast
  from assms(1) v ls(1)
  have "list_all (conforms (OBJECT
             [(''item'', STRING), (''type'', STRING), (''context'', STRING),
              (''severity'', STRING)]
             [''item'', ''type'', ''context'', ''severity''])) ls"
    by (simp add: response_schema_def)
  with ls(2) have "conforms (OBJECT
             [(''item'', STRING), (''type'', STRING), (''context'', STRING),
              (''severity'', STRING)]
             [''item'', ''type'', ''context'', ''severity'']) leak"
    unfolding list_all_iff by blast
  then show ?thesis
    by (rule conforms_leak_populated)
qed

lemma sample_audit_conforms: "conforms response_schema sample_audit"
  by (simp add: response_schema_def sample_audit_def)

text \<open>
  C2. If the provider call succeeds and the response exposes an object parsed to the
  schema, \<^verbatim>\<open>perform_privacy_validation\<close> returns that object itself. The object has
  its four top-level fields, and every element of its \<^verbatim>\<open>leaks\<close> has \<^verbatim>\<open>item\<close>,
  \<^verbatim>\<open>type\<close>, \<^verbatim>\<open>context\<close> and \<^verbatim>\<open>severity\<close>.
\<close>

theorem perform_privacy_validation_parsed:
  assumes "generate_content (validation_request original_text sanitized_text) = Inr response"
    and "conforms response_schema (response_parsed response)"
  shows "fst (perform_privacy_validation generate_content json_loads
                original_text sanitized_text w) = Inr (response_parsed response) \<and>
         populated ''score'' (response_parsed response) \<and>
         populated ''leaks'' (response_parsed response) \<and>
         populated ''summary'' (response_parsed response) \<and>
         populated ''accuracy_metrics'' (response_parsed response) \<and>
         (\<forall>leak \<in> set (leaks_of (response_parsed response)).
            populated ''item'' leak \<and> populated ''type'' leak \<and>
            populated ''context'' leak \<and> populated ''severity'' leak)"
proof -
  have "truthy (response_parsed response)"
    using assms(2) by (rule conforms_response_schema_truthy)
  with assms(1)
  have "fst (perform_privacy_validation generate_content json_loads
               original_text sanitized_text w) = Inr (response_parsed response)"
    by (simp add: perform_privacy_validation_def validation_body_def Let_def)
  moreover from assms(2)
  have "populated ''score'' (response_parsed response) \<and>
        populated ''leaks'' (response_parsed response) \<and>
        populated ''summary'' (response_parsed response) \<and>
        populated ''accuracy_metrics'' (response_parsed response)"
    by (cases "response_parsed response") (auto simp: response_schema_def populated_def)
  moreover
  have "\<forall>leak \<in> set (leaks_of (response_parsed response)).
            populated ''item'' leak \<and> populated ''type'' leak \<and>
            populated ''context'' leak \<and> populated ''severity'' leak"
    using conforms_response_schema_leaks [OF assms(2)] by blast
  ultimately show ?thesis by blast
qed

theorem perform_privacy_validation_parsed_witness:
  "fst (perform_privacy_validation
          (\<lambda>_. Inr \<lparr>response_text = Some ''ignored'', response_parsed = sample_audit\<rparr>)
          (\<lambda>_. Inr PNone)
          ''John Smith lives at 123 Main St'' ''[REDACTED_NAME] lives at 123 Main St''
          empty_world) = Inr sample_audit \<and>
   leaks_of sample_audit =
     [PDict [(''item'', PStr ''123 Main St''), (''type'', PStr ''address''),
             (''context'', PStr ''lives at 123 Main St''), (''severity'', PStr ''Critical'')]] \<and>
   populated ''severity''
     (PDict [(''item'', PStr ''123 Main St''), (''type'', PStr ''address''),
             (''context'', PStr ''lives at 123 Main St''), (''severity'', PStr ''Critical'')])"
proof -
  have l: "leaks_of sample_audit =
     [PDict [(''item'', PStr ''123 Main St''), (''type'', PStr ''address''),
             (''context'', PStr ''lives at 123 Main St''), (''severity'', PStr ''Critical'')]]"
    by (simp add: leaks_of_def sample_audit_def)
  have c: "conforms response_schema
             (response_parsed \<lparr>response_text = Some ''ignored'', response_parsed = sample_audit\<rparr>)"
    using sample_audit_conforms by simp
  show ?thesis
    using perform_privacy_validation_parsed
            [of "\<lambda>_. Inr \<lparr>response_text = Some ''ignored'', response_parsed = sample_audit\<rparr>"
                "''John Smith lives at 123 Main St''" "''[REDACTED_NAME] lives at 123 Main St''"
                "\<lparr>response_text = Some ''ignored'', response_parsed = sample_audit\<rparr>"
                "\<lambda>_. Inr PNone" empty_world, OF refl c]
    by (simp add: l)
qed

subsection \<open>The prompt\<close>




subsection \<open>An empty response text\<close>

text \<open>
  C4. If the provider call succeeds, the response exposes no parsed object and its text
  is empty or absent, \<^verbatim>\<open>perform_privacy_validation\<close> hands the literal \<^verbatim>\<open>'{}'\<close>
  to \<^verbatim>\<open>json.loads\<close> and returns what that gives: the empty dict, not the fallback.
  Nothing is printed, and the result has none of the fields the schema requires. That
  \<^verbatim>\<open>json.loads('{}')\<close> is the empty dict is a fact about the library.
\<close>

theorem perform_privacy_validation_empty_text:
  assumes "generate_content (validation_request original_text sanitized_text) = Inr response"
    and "\<not> truthy (response_parsed response)"
    and "response_text response = None \<or> response_text response = Some []"
    and "json_loads ''{}'' = Inr (PDict [])"
  shows "perform_privacy_validation generate_content json_loads
           original_text sanitized_text w =
           (Inr (PDict []), send (validation_request original_text sanitized_text) w) \<and>
         PDict [] \<noteq> PDict
             [(''score'', PInt 100),
              (''leaks'', PList []),
              (''summary'', PStr ''Audit service encountered an error. Manual review suggested.''),
              (''accuracy_metrics'', PDict [(''precision'', PFloat 1), (''recall'', PFloat 1)])] \<and>
         \<not> conforms response_schema (PDict []) \<and>
         \<not> populated ''score'' (PDict []) \<and> \<not> populated ''leaks'' (PDict []) \<and>
         \<not> populated ''summary'' (PDict []) \<and> \<not> populated ''accuracy_metrics'' (PDict [])"
proof -
  from assms(3) have "py_or (response_text response) ''{}'' = ''{}''"
    by (auto simp: py_or_def)
  with assms(1,2,4)
  have "validation_body generate_content json_loads original_text sanitized_text =
          Inr (PDict [])"
    by (simp add: validation_body_def)
  then have "perform_privacy_validation generate_content json_loads
           original_text sanitized_text w =
           (Inr (PDict []), send (validation_request original_text sanitized_text) w)"
    by (simp add: perform_privacy_validation_def Let_def)
  then show ?thesis
    by (simp add: populated_def response_schema_def)
qed

theorem perform_privacy_validation_empty_text_witness:
  "perform_privacy_validation
     (\<lambda>_. Inr \<lparr>response_text = Some [], response_parsed = PNone\<rparr>)
     (\<lambda>s. if s = ''{}'' then Inr (PDict [])
          else Inl (PyExc (OtherException ''JSONDecodeError'') (Inr ''Expecting value'')))
     ''John Smith'' ''[REDACTED_NAME]'' empty_world =
     (Inr (PDict []),
      \<lparr>stdout = [], stdout_write = utf8_stdout,
       requests = [validation_request ''John Smith'' ''[REDACTED_NAME]'']\<rparr>)"
  using perform_privacy_validation_empty_text
          [of "\<lambda>_. Inr \<lparr>response_text = Some [], response_parsed = PNone\<rparr>"
              "''John Smith''" "''[REDACTED_NAME]''"
              "\<lparr>response_text = Some [], response_parsed = PNone\<rparr>"
              "\<lambda>s. if s = ''{}'' then Inr (PDict [])
                   else Inl (PyExc (OtherException ''JSONDecodeError'') (Inr ''Expecting value''))"
              empty_world]
  by (simp add: send_def empty_world_def)

subsection \<open>Repeated calls\<close>







section \<open>Properties of extract_text_from_pdf\<close>

lemma str_nat_examples: "str_nat 1 = ''1''" "str_nat 10 = ''10''" "str_nat 123 = ''123''"
  by simp_all

text \<open>The loop on pages that all extract: one segment per remaining page is appended.\<close>

lemma extract_loop_all_extract:
  "i \<le> length texts \<Longrightarrow>
   extract_loop (map Inr texts) (length texts) i full_text =
     Inr (full_text @ map (\<lambda>j. page_segment j (py_or (texts ! j) [])) [i..<length texts])"
proof (induction "length texts - i" arbitrary: i full_text)
  case 0
  then have "i = length texts" by simp
  then show ?case
    by (subst extract_loop.simps) simp
next
  case (Suc d)
  then have lt: "i < length texts" and d: "d = length texts - (i + 1)"
    and le: "i + 1 \<le> length texts"
    by simp_all
  have "extract_loop (map Inr texts) (length texts) i full_text =
        extract_loop (map Inr texts) (length texts) (i + 1)
          (full_text @ [page_segment i (py_or (texts ! i) [])])"
    using lt by (subst extract_loop.simps) simp
  also have "\<dots> = Inr ((full_text @ [page_segment i (py_or (texts ! i) [])]) @
                 map (\<lambda>j. page_segment j (py_or (texts ! j) [])) [i + 1..<length texts])"
    using Suc.hyps(1) [OF d le] .
  also have "\<dots> = Inr (full_text @
                 map (\<lambda>j. page_segment j (py_or (texts ! j) [])) [i..<length texts])"
    using lt by (simp add: upt_conv_Cons)
  finally show ?case .
qed

lemma map_index_enumerate:
  "map (\<lambda>j. f j (xs ! j)) [0..<length xs] = map (\<lambda>(j, x). f j x) (enumerate 0 xs)"
  by (rule nth_equalityI) (simp_all add: nth_enumerate_eq)

text \<open>The loop stops at the first page whose extraction raises, with that exception.\<close>

lemma extract_loop_raises:
  "k \<le> i \<Longrightarrow> i < length pages \<Longrightarrow> pages ! i = Inl e \<Longrightarrow>
   (\<forall>j. k \<le> j \<and> j < i \<longrightarrow> (\<exists>t. pages ! j = Inr t)) \<Longrightarrow>
   extract_loop pages (length pages) k full_text = Inl e"
proof (induction "i - k" arbitrary: k full_text)
  case 0
  then have "k = i" by simp
  with 0 show ?case
    by (subst extract_loop.simps) simp
next
  case (Suc d)
  then have lt: "k < i" and d: "d = i - (k + 1)" and le: "k + 1 \<le> i"
    by simp_all
  from Suc.prems(4) lt obtain t where t: "pages ! k = Inr t"
    by blast
  have rest: "\<forall>j. k + 1 \<le> j \<and> j < i \<longrightarrow> (\<exists>t. pages ! j = Inr t)"
    using Suc.prems(4) by simp
  have "extract_loop pages (length pages) k full_text =
        extract_loop pages (length pages) (k + 1)
          (full_text @ [page_segment k (py_or t [])])"
    using lt Suc.prems(2) t by (subst extract_loop.simps) simp
  also have "\<dots> = Inl e"
    using Suc.hyps(1) [OF d le Suc.prems(2) Suc.prems(3) rest] .
  finally show ?case .
qed

text \<open>
  C8. For PDF bytes that the reader opens and whose pages all extract, the function
  returns the concatenation, in page order, of one segment per page: the header
  "--- Page N ---" with N the 1-based number of the page, a newline, the text of the
  page (empty where the page has none) and two newlines. Nothing is printed.
\<close>

theorem extract_text_from_pdf_pages:
  assumes "PdfReader file_bytes = Inr (map Inr texts)"
  shows "extract_text_from_pdf PdfReader file_bytes w =
           (Inr (concat (map (\<lambda>(i, page_text).
                    ''--- Page '' @ str_nat (i + 1) @ '' ---\<newline>'' @
                    py_or page_text [] @ ''\<newline>\<newline>'')
                  (enumerate 0 texts))), w)"
proof -
  have "extract_loop (map Inr texts) (length (map Inr texts :: page list)) 0 [] =
          Inr (map (\<lambda>j. page_segment j (py_or (texts ! j) [])) [0..<length texts])"
    using extract_loop_all_extract [of 0 texts "[]"] by simp
  also have "map (\<lambda>j. page_segment j (py_or (texts ! j) [])) [0..<length texts] =
             map (\<lambda>(j, t). page_segment j (py_or t [])) (enumerate 0 texts)"
    by (rule map_index_enumerate)
  finally have "extract_body PdfReader file_bytes =
      Inr (concat (map (\<lambda>(j, t). page_segment j (py_or t [])) (enumerate 0 texts)))"
    using assms by (simp add: extract_body_def)
  then show ?thesis
    by (simp add: extract_text_from_pdf_def page_segment_def)
qed

theorem extract_text_from_pdf_pages_witness:
  "extract_text_from_pdf (\<lambda>_. Inr [Inr (Some ''Invoice 42''), Inr None, Inr (Some ''Total'')])
     [0x25, 0x50, 0x44, 0x46] empty_world =
     (Inr (''--- Page 1 ---\<newline>Invoice 42\<newline>\<newline>'' @
           ''--- Page 2 ---\<newline>\<newline>\<newline>'' @
           ''--- Page 3 ---\<newline>Total\<newline>\<newline>''), empty_world)"
  using extract_text_from_pdf_pages
          [of "\<lambda>_. Inr [Inr (Some ''Invoice 42''), Inr None, Inr (Some ''Total'')]"
              "[0x25, 0x50, 0x44, 0x46]" "[Some ''Invoice 42'', None, Some ''Total'']" empty_world]
  by (simp add: enumerate_eq_zip py_or_def upt_conv_Cons)

text \<open>
  C9, as the code has it. When extraction fails, because the reader raises on the bytes
  or because some page raises, with an \<^verbatim>\<open>Exception\<close> whose log line can be printed,
  the caller does not get the library's exception: the function prints the line and
  raises a \<^verbatim>\<open>ValueError\<close> whose message holds the hint "try a text or JSON file".
\<close>

theorem extract_text_from_pdf_raises_ValueError_if_logged:
  assumes "PdfReader file_bytes = Inl e \<or>
           (\<exists>pages i. PdfReader file_bytes = Inr pages \<and> i < length pages \<and>
              pages ! i = Inl e \<and> (\<forall>j<i. \<exists>t. pages ! j = Inr t))"
    and "is_Exception e"
    and "exc_str e = Inr message"
    and "stdout_write w (stdout w) (''Error extracting text from PDF: '' @ message) = None"
  shows "extract_text_from_pdf PdfReader file_bytes w =
           (Inl (PyExc ValueError
              (Inr ''Failed to extract text from PDF file. Please try a text or JSON file if this persists.'')),
            w\<lparr>stdout := stdout w @ [''Error extracting text from PDF: '' @ message]\<rparr>) \<and>
         sublist ''try a text or JSON file''
           ''Failed to extract text from PDF file. Please try a text or JSON file if this persists.''"
proof -
  have body: "extract_body PdfReader file_bytes = Inl e"
    using assms(1)
  proof (elim disjE exE conjE)
    assume "PdfReader file_bytes = Inl e"
    then show ?thesis by (simp add: extract_body_def)
  next
    fix pages i
    assume p: "PdfReader file_bytes = Inr pages" and i: "i < length pages"
      and e: "pages ! i = Inl e" and before: "\<forall>j<i. \<exists>t. pages ! j = Inr t"
    have "extract_loop pages (length pages) 0 [] = Inl e"
      using i e before by (intro extract_loop_raises [of 0 i]) simp_all
    with p show ?thesis by (simp add: extract_body_def)
  qed
  have printed: "print_error ''Error extracting text from PDF: '' e w =
          Inr (w\<lparr>stdout := stdout w @ [''Error extracting text from PDF: '' @ message]\<rparr>)"
    using assms(3,4) by (rule print_error_printed)
  have "sublist ''try a text or JSON file''
          (''Failed to extract text from PDF file. Please '' @ ''try a text or JSON file'' @
           '' if this persists.'')"
    by (rule sublist_appendI)
  then have "sublist ''try a text or JSON file''
          ''Failed to extract text from PDF file. Please try a text or JSON file if this persists.''"
    by simp
  with body printed assms(2) show ?thesis
    by (simp add: extract_text_from_pdf_def)
qed

theorem extract_text_from_pdf_raises_ValueError_if_logged_witness:
  "fst (extract_text_from_pdf
          (\<lambda>_. Inl (PyExc (OtherException ''PdfReadError'') (Inr ''EOF marker not found'')))
          [0x68, 0x69] empty_world) =
     Inl (PyExc ValueError
        (Inr ''Failed to extract text from PDF file. Please try a text or JSON file if this persists.'')) \<and>
   stdout (snd (extract_text_from_pdf
          (\<lambda>_. Inl (PyExc (OtherException ''PdfReadError'') (Inr ''EOF marker not found'')))
          [0x68, 0x69] empty_world)) =
     [''Error extracting text from PDF: EOF marker not found''] \<and>
   fst (extract_text_from_pdf
          (\<lambda>_. Inr [Inr (Some ''Invoice 42''),
                    Inl (PyExc (OtherException ''KeyError'') (Inr ''/Contents''))])
          [0x25, 0x50, 0x44, 0x46] empty_world) =
     Inl (PyExc ValueError
        (Inr ''Failed to extract text from PDF file. Please try a text or JSON file if this persists.'')) \<and>
   stdout (snd (extract_text_from_pdf
          (\<lambda>_. Inr [Inr (Some ''Invoice 42''),
                    Inl (PyExc (OtherException ''KeyError'') (Inr ''/Contents''))])
          [0x25, 0x50, 0x44, 0x46] empty_world)) =
     [''Error extracting text from PDF: /Contents'']"
proof -
  have a1: "(\<lambda>_. Inl (PyExc (OtherException ''PdfReadError'') (Inr ''EOF marker not found'')))
              [0x68, 0x69 :: 8 word] =
            Inl (PyExc (OtherException ''PdfReadError'') (Inr ''EOF marker not found'')) \<or>
            (\<exists>pages i.
               (\<lambda>_. Inl (PyExc (OtherException ''PdfReadError'') (Inr ''EOF marker not found'')))
                 [0x68, 0x69 :: 8 word] = Inr pages \<and> i < length pages \<and>
               pages ! i = Inl (PyExc (OtherException ''PdfReadError'') (Inr ''EOF marker not found'')) \<and>
               (\<forall>j<i. \<exists>t. pages ! j = Inr t))"
    by simp
  have a2: "is_Exception (PyExc (OtherException ''PdfReadError'') (Inr ''EOF marker not found''))"
    and a3: "exc_str (PyExc (OtherException ''PdfReadError'') (Inr ''EOF marker not found'')) =
               Inr ''EOF marker not found''"
    by simp_all
  have a4: "stdout_write empty_world (stdout empty_world)
              (''Error extracting text from PDF: '' @ ''EOF marker not found'') = None"
    by (simp add: empty_world_def utf8_stdout_def)
  have b1: "(\<lambda>_. Inr [Inr (Some ''Invoice 42''),
                      Inl (PyExc (OtherException ''KeyError'') (Inr ''/Contents''))])
              [0x25, 0x50, 0x44, 0x46 :: 8 word] =
            Inl (PyExc (OtherException ''KeyError'') (Inr ''/Contents'')) \<or>
            (\<exists>pages i.
               (\<lambda>_. Inr [Inr (Some ''Invoice 42''),
                         Inl (PyExc (OtherException ''KeyError'') (Inr ''/Contents''))])
                 [0x25, 0x50, 0x44, 0x46 :: 8 word] = Inr pages \<and> i < length pages \<and>
               pages ! i = Inl (PyExc (OtherException ''KeyError'') (Inr ''/Contents'')) \<and>
               (\<forall>j<i. \<exists>t. pages ! j = Inr t))"
    by (rule disjI2, rule exI [of _ "[Inr (Some ''Invoice 42''),
          Inl (PyExc (OtherException ''KeyError'') (Inr ''/Contents''))]"], rule exI [of _ 1]) simp
  have b2: "is_Exception (PyExc (OtherException ''KeyError'') (Inr ''/Contents''))"
    and b3: "exc_str (PyExc (OtherException ''KeyError'') (Inr ''/Contents'')) = Inr ''/Contents''"
    by simp_all
  have b4: "stdout_write empty_world (stdout empty_world)
              (''Error extracting text from PDF: '' @ ''/Contents'') = None"
    by (simp add: empty_world_def utf8_stdout_def)
  show ?thesis
    using extract_text_from_pdf_raises_ValueError_if_logged
            [where PdfReader =
                     "\<lambda>_. Inl (PyExc (OtherException ''PdfReadError'') (Inr ''EOF marker not found''))"
               and file_bytes = "[0x68, 0x69]"
               and e = "PyExc (OtherException ''PdfReadError'') (Inr ''EOF marker not found'')"
               and message = "''EOF marker not found''" and w = empty_world, OF a1 a2 a3 a4]
          extract_text_from_pdf_raises_ValueError_if_logged
            [where PdfReader =
                     "\<lambda>_. Inr [Inr (Some ''Invoice 42''),
                        Inl (PyExc (OtherException ''KeyError'') (Inr ''/Contents''))]"
               and file_bytes = "[0x25, 0x50, 0x44, 0x46]"
               and e = "PyExc (OtherException ''KeyError'') (Inr ''/Contents'')"
               and message = "''/Contents''" and w = empty_world, OF b1 b2 b3 b4]
    by (simp add: empty_world_def)
qed

text \<open>
  C9 as stated fails. On a stream whose encoding is ASCII, a reader error with the
  character U+00E9 in its message makes the print in the handler raise: the caller gets
  \<^verbatim>\<open>UnicodeEncodeError\<close>, whose message has no hint, not the \<^verbatim>\<open>ValueError\<close>.
\<close>

theorem extract_text_from_pdf_raises_ValueError_counterexample:
  "fst (extract_text_from_pdf cafe_reader [0x25, 0x50, 0x44, 0x46] ascii_world) =
     Inl (PyExc (OtherException ''UnicodeEncodeError'')
            (Inr ''ascii codec cannot encode character: ordinal not in range(128)'')) \<and>
   \<not> sublist ''try a text or JSON file''
       ''ascii codec cannot encode character: ordinal not in range(128)''"
proof -
  have "fst (extract_text_from_pdf cafe_reader [0x25, 0x50, 0x44, 0x46] ascii_world) =
     Inl (PyExc (OtherException ''UnicodeEncodeError'')
            (Inr ''ascii codec cannot encode character: ordinal not in range(128)''))"
    by (simp add: extract_text_from_pdf_def extract_body_def cafe_reader_def
          print_error_def py_print_def ascii_world_def ascii_stdout_def)
  moreover
  have "\<not> sublist ''try a text or JSON file''
       ''ascii codec cannot encode character: ordinal not in range(128)''"
    by code_simp
  ultimately show ?thesis by (rule conjI)
qed

end
